theory Spec2Isabelle
  imports Main "HOL-Library.Word"
begin

section \<open>The POSIX memory layer: page operations and the shared-memory registry\<close>

text \<open>
  The file under verification is \<^verbatim>\<open>src/sys/memory_posix.c\<close>. Every function of it is a
  thin sequence of calls into the operating system around a small amount of global
  state (the pool of \<^verbatim>\<open>shmem_t\<close> entries and its free list). The embedding therefore
  threads a \<open>world\<close> through every function: the globals of the file, the list of OS
  calls made so far together with their results, and the behaviour of the OS itself,
  which is an arbitrary function from the calls made so far and the present call to the
  value the call returns. Nothing is assumed about the OS unless a theorem says so.
\<close>

subsection \<open>Values handed to and returned by the OS\<close>

text \<open>
  A flag word is the set of the flags or-ed together, so \<^verbatim>\<open>a | b\<close> is a union and the
  word \<^verbatim>\<open>0\<close> is the empty set (\<^verbatim>\<open>PROT_NONE\<close> and \<^verbatim>\<open>O_RDONLY\<close> are \<^verbatim>\<open>0\<close>).
\<close>

datatype prot_flag = PROT_READ | PROT_WRITE | PROT_EXEC

datatype map_flag = MAP_ANON | MAP_NORESERVE | MAP_PRIVATE | MAP_SHARED | MAP_FIXED

datatype open_flag = O_RDWR | O_CREAT | O_EXCL

datatype mode_flag = S_IREAD | S_IWRITE

definition PROT_NONE :: "prot_flag set" where
  "PROT_NONE = {}"

definition O_RDONLY :: "open_flag set" where
  "O_RDONLY = {}"

text \<open>
  \<^verbatim>\<open>page_access_t\<close> is declared in \<^verbatim>\<open>sys/memory.h\<close>; the three enumerators the file
  names are joined by the no-access mode, which takes the \<^verbatim>\<open>default\<close> branches.
\<close>

datatype page_access_t = ACC_NONE | ACC_READONLY | ACC_READWRITE | ACC_READWRITEEXEC

text \<open>
  A pointer is the integer value of its address; pointers are only compared. A
  \<^verbatim>\<open>size_t\<close> is a 64-bit word, an \<^verbatim>\<open>int\<close> (descriptors, results of calls) is an
  integer.
\<close>

type_synonym ptr = int

type_synonym size_t = "64 word"

definition MAP_FAILED :: ptr where
  "MAP_FAILED = - 1"

definition NUL :: char where
  "NUL = CHR 0x00"

text \<open>
  A string argument as a C function reads it from memory. The caller's
  \<^verbatim>\<open>const char *filename\<close> is a terminated string, \<open>C_str\<close> of its bytes. A read
  that meets no NUL in the memory the model holds runs on into memory it does not hold:
  \<open>Unterminated\<close> keeps the bytes read that far, with which the string the callee sees
  begins.
\<close>

datatype c_string = C_str string | Unterminated string

text \<open>
  \<^verbatim>\<open>strncpy(dst, src, n)\<close> writes exactly \<open>n\<close> bytes: the bytes of \<open>src\<close> up to its
  terminator, cut after \<open>n\<close>, and NUL bytes for the rest. When \<open>src\<close> has \<open>n\<close> bytes or
  more, no NUL is written.
\<close>

definition strncpy :: "string \<Rightarrow> nat \<Rightarrow> string" where
  "strncpy src n =
     (let s = takeWhile (\<lambda>c. c \<noteq> NUL) src in take n s @ replicate (n - length s) NUL)"

datatype syscall =
    Getpagesize
  | Mprotect ptr size_t "prot_flag set"
  | Mmap ptr size_t "prot_flag set" "map_flag set" int size_t
  | Munmap ptr size_t
  | Shm_unlink c_string
  | Shm_open c_string "open_flag set" "mode_flag set"
  | Ftruncate int size_t
  | Close int

subsection \<open>The globals of the file and the world\<close>

definition MAX_SHMEM :: nat where
  "MAX_SHMEM = 128"

text \<open>
  \<^verbatim>\<open>shmem_t\<close>: the \<^verbatim>\<open>filename\<close> array (a list of as many bytes as the array has,
  \<^verbatim>\<open>PATH_MAX\<close>) and the descriptor. The \<^verbatim>\<open>free_it\<close> node is the entry's membership in
  the free list, which holds the indices of its entries in \<^verbatim>\<open>s_shmem\<close>.
\<close>

record shmem_t =
  filename :: string
  handle :: int

text \<open>
  \<^verbatim>\<open>shmem->filename\<close> read as a string, as \<^verbatim>\<open>shm_unlink\<close> reads it in
  \<^verbatim>\<open>destroy_shared_memory\<close>. The read starts at the array and stops at the first NUL.
  When the array holds none, it goes on into what lies behind the array in \<^verbatim>\<open>shmem_t\<close>,
  the \<^verbatim>\<open>int handle\<close>: four bytes, the low byte first (the x86 targets of the code), and
  directly behind the array, whose size \<^verbatim>\<open>PATH_MAX\<close> is a multiple of four (4096, 1024).
  What lies behind the descriptor the model does not hold.
\<close>

definition int_bytes :: "int \<Rightarrow> string" where
  "int_bytes i = map (\<lambda>k. char_of (i div 256 ^ k)) [0, 1, 2, 3]"

definition read_filename :: "shmem_t \<Rightarrow> c_string" where
  "read_filename e =
     (let mem = filename e @ int_bytes (handle e)
      in if NUL \<in> set mem then C_str (takeWhile (\<lambda>c. c \<noteq> NUL) mem) else Unterminated mem)"

text \<open>A handle is a pointer to an entry of \<^verbatim>\<open>s_shmem\<close>, or \<^verbatim>\<open>NULL\<close>.\<close>

type_synonym shmem_handle_t = "nat option"

record world =
  os_reply :: "(syscall \<times> int) list \<Rightarrow> syscall \<Rightarrow> int"
  os_log :: "(syscall \<times> int) list"
  s_initialized :: bool
  s_shmem :: "nat \<Rightarrow> shmem_t"
  s_free_shmem :: "nat list"

text \<open>
  The state at process start: statics are zeroed, nothing has been asked of the OS.
  \<open>path_max\<close> is the platform's \<^verbatim>\<open>PATH_MAX\<close>, the size of every \<^verbatim>\<open>filename\<close> array.
\<close>

definition initial_world :: "((syscall \<times> int) list \<Rightarrow> syscall \<Rightarrow> int) \<Rightarrow> nat \<Rightarrow> world" where
  "initial_world os path_max =
     \<lparr> os_reply = os, os_log = [], s_initialized = False,
       s_shmem = (\<lambda>i. \<lparr> filename = replicate path_max NUL, handle = 0 \<rparr>),
       s_free_shmem = [] \<rparr>"

text \<open>One call into the OS: the OS answers, and the call and its answer are logged.\<close>

definition sys :: "syscall \<Rightarrow> world \<Rightarrow> int \<times> world" where
  "sys c w =
     (let r = os_reply w (os_log w) c in (r, w\<lparr> os_log := os_log w @ [(c, r)] \<rparr>))"

text \<open>
  How the process can stop instead of returning: a failed \<^verbatim>\<open>CHECK\<close>, or the use of a
  handle that points to no entry (undefined behaviour in C).
\<close>

datatype fault = Assertion_failed | Invalid_handle

subsection \<open>The intrusive list of \<^verbatim>\<open>core/list.h\<close> and the assertion of \<^verbatim>\<open>core/assert.h\<close>\<close>

text \<open>
  Modelled from the spec: \<^verbatim>\<open>core/list.h\<close> is not among the sources. The free list is
  the collection of the entries not handed out; \<^verbatim>\<open>list_add\<close> puts an entry on it,
  \<^verbatim>\<open>list_remove\<close> takes an entry off it, and \<^verbatim>\<open>list_first_entry\<close> is the entry drawn
  by a creation, \<^verbatim>\<open>NULL\<close> when the pool is exhausted.
\<close>

definition list_add :: "nat list \<Rightarrow> nat \<Rightarrow> nat list" where
  "list_add l n = l @ [n]"

definition list_remove :: "nat list \<Rightarrow> nat \<Rightarrow> nat list" where
  "list_remove l n = remove1 n l"

definition list_first_entry :: "nat list \<Rightarrow> nat option" where
  "list_first_entry l = (case l of [] \<Rightarrow> None | n # _ \<Rightarrow> Some n)"

text \<open>
  Modelled from the spec: \<^verbatim>\<open>core/assert.h\<close> is not among the sources. A failed
  \<^verbatim>\<open>CHECK_NOTNULL\<close> halts the process.
\<close>

definition CHECK_NOTNULL :: "'a option \<Rightarrow> fault + 'a" where
  "CHECK_NOTNULL p = (case p of None \<Rightarrow> Inl Assertion_failed | Some x \<Rightarrow> Inr x)"

subsection \<open>Access modes\<close>

fun access_to_mode_flags :: "page_access_t \<Rightarrow> mode_flag set" where
  "access_to_mode_flags ACC_READONLY = {S_IREAD}"
| "access_to_mode_flags ACC_READWRITE = {S_IREAD} \<union> {S_IWRITE}"
| "access_to_mode_flags _ = {}"

fun access_to_open_flags :: "page_access_t \<Rightarrow> open_flag set" where
  "access_to_open_flags ACC_READONLY = O_RDONLY"
| "access_to_open_flags ACC_READWRITE = {O_RDWR}"
| "access_to_open_flags _ = {}"

fun access_to_protect_flags :: "page_access_t \<Rightarrow> prot_flag set" where
  "access_to_protect_flags ACC_READONLY = {PROT_READ}"
| "access_to_protect_flags ACC_READWRITE = {PROT_READ} \<union> {PROT_WRITE}"
| "access_to_protect_flags ACC_READWRITEEXEC = {PROT_READ} \<union> {PROT_WRITE} \<union> {PROT_EXEC}"
| "access_to_protect_flags _ = PROT_NONE"

subsection \<open>Page operations\<close>

text \<open>\<^verbatim>\<open>getpagesize\<close> returns an \<^verbatim>\<open>int\<close>, which the return converts to \<^verbatim>\<open>size_t\<close>.\<close>

definition get_page_size :: "world \<Rightarrow> size_t \<times> world" where
  "get_page_size w = (let (r, w1) = sys Getpagesize w in (word_of_int r, w1))"

definition get_allocation_granularity :: "world \<Rightarrow> size_t \<times> world" where
  "get_allocation_granularity w = get_page_size w"

definition protect_pages :: "ptr \<Rightarrow> size_t \<Rightarrow> page_access_t \<Rightarrow> world \<Rightarrow> bool \<times> world" where
  "protect_pages p sz access w =
     (let prot = access_to_protect_flags access;
          (r, w1) = sys (Mprotect p sz prot) w
      in (r = 0, w1))"

definition reserve_pages :: "ptr \<Rightarrow> size_t \<Rightarrow> world \<Rightarrow> bool \<times> world" where
  "reserve_pages p sz w =
     (let (res, w1) =
            sys (Mmap p sz PROT_NONE ({MAP_ANON} \<union> {MAP_NORESERVE} \<union> {MAP_PRIVATE}) (- 1) 0) w
      in if res = MAP_FAILED then (False, w1)
         else if res \<noteq> p then (let (u, w2) = sys (Munmap res sz) w1 in (False, w2))
         else (True, w1))"

definition release_pages :: "ptr \<Rightarrow> size_t \<Rightarrow> world \<Rightarrow> bool \<times> world" where
  "release_pages p sz w = (let (r, w1) = sys (Munmap p sz) w in (r = 0, w1))"

subsection \<open>The shared-memory registry\<close>

text \<open>The loop of \<^verbatim>\<open>init_shared_memory_entries\<close> adds the entries in index order.\<close>

definition init_shared_memory_entries :: "world \<Rightarrow> world" where
  "init_shared_memory_entries w =
     (if s_initialized w then w
      else w\<lparr> s_initialized := True,
              s_free_shmem := fold (\<lambda>i l. list_add l i) [0..<MAX_SHMEM] (s_free_shmem w) \<rparr>)"

definition create_shared_memory ::
  "string \<Rightarrow> size_t \<Rightarrow> page_access_t \<Rightarrow> world \<Rightarrow> fault + (shmem_handle_t \<times> world)" where
  "create_shared_memory name sz access w =
     (let w0 = init_shared_memory_entries w in
      case CHECK_NOTNULL (list_first_entry (s_free_shmem w0)) of
        Inl f \<Rightarrow> Inl f
      | Inr shmem \<Rightarrow>
          (let (u, w1) = sys (Shm_unlink (C_str name)) w0;
               oflag = access_to_open_flags access;
               mode = access_to_mode_flags access;
               (fd, w2) = sys (Shm_open (C_str name) (oflag \<union> {O_CREAT} \<union> {O_EXCL}) mode) w1
           in if fd = - 1 then Inr (None, w2)
              else (let (res, w3) = sys (Ftruncate fd sz) w2
                    in if res = - 1
                       then (let (u2, w4) = sys (Shm_unlink (C_str name)) w3 in Inr (None, w4))
                       else Inr (Some shmem,
                              w3\<lparr> s_shmem := (s_shmem w3)
                                     (shmem := \<lparr> filename =
                                                   strncpy name (length (filename (s_shmem w3 shmem))),
                                                 handle = fd \<rparr>),
                                   s_free_shmem := list_remove (s_free_shmem w3) shmem \<rparr>))))"

text \<open>
  A handle is cast back to the entry it points to. \<^verbatim>\<open>NULL\<close> and a pointer outside the
  array point to no entry.
\<close>

definition entry_of :: "shmem_handle_t \<Rightarrow> fault + nat" where
  "entry_of h =
     (case h of None \<Rightarrow> Inl Invalid_handle
      | Some i \<Rightarrow> if i < MAX_SHMEM then Inr i else Inl Invalid_handle)"

definition map_shared_memory ::
  "shmem_handle_t \<Rightarrow> size_t \<Rightarrow> ptr \<Rightarrow> size_t \<Rightarrow> page_access_t \<Rightarrow> world \<Rightarrow> fault + (bool \<times> world)" where
  "map_shared_memory h offset start sz access w =
     (let w0 = init_shared_memory_entries w in
      case entry_of h of
        Inl f \<Rightarrow> Inl f
      | Inr shmem \<Rightarrow>
          (let prot = access_to_protect_flags access;
               (p, w1) = sys (Mmap start sz prot ({MAP_SHARED} \<union> {MAP_FIXED})
                                (handle (s_shmem w0 shmem)) offset) w0
           in Inr (p \<noteq> MAP_FAILED, w1)))"

definition unmap_shared_memory :: "shmem_handle_t \<Rightarrow> ptr \<Rightarrow> size_t \<Rightarrow> world \<Rightarrow> bool \<times> world" where
  "unmap_shared_memory h start sz w = (let (r, w1) = sys (Munmap start sz) w in (r = 0, w1))"

definition destroy_shared_memory :: "shmem_handle_t \<Rightarrow> world \<Rightarrow> fault + (bool \<times> world)" where
  "destroy_shared_memory h w =
     (let w0 = init_shared_memory_entries w in
      case entry_of h of
        Inl f \<Rightarrow> Inl f
      | Inr shmem \<Rightarrow>
          (let (res1, w1) = sys (Close (handle (s_shmem w0 shmem))) w0;
               (res2, w2) = sys (Shm_unlink (read_filename (s_shmem w1 shmem))) w1
           in Inr (res1 = 0 \<and> res2 = 0,
                   w2\<lparr> s_free_shmem := list_add (s_free_shmem w2) shmem \<rparr>)))"

subsection \<open>Reading the log\<close>

text \<open>The calls made between two worlds, the later one reached from the earlier.\<close>

definition calls_since :: "world \<Rightarrow> world \<Rightarrow> (syscall \<times> int) list" where
  "calls_since w w' = drop (length (os_log w)) (os_log w')"

text \<open>
  The descriptors the process holds according to a log: each successful \<^verbatim>\<open>shm_open\<close>
  adds the descriptor it returned, each successful \<^verbatim>\<open>close\<close> gives one back.
\<close>

definition open_fds :: "(syscall \<times> int) list \<Rightarrow> int list" where
  "open_fds log =
     fold (\<lambda>(c, r) fds.
             case c of
               Shm_open n fl m \<Rightarrow> if r = - 1 then fds else fds @ [r]
             | Close fd \<Rightarrow> if r = 0 then remove1 fd fds else fds
             | _ \<Rightarrow> fds) log []"

text \<open>
  The names in use in the namespace of shared-memory objects according to a log, as POSIX
  keeps them: a name is in use from a successful \<^verbatim>\<open>shm_open\<close> of it to the next
  successful \<^verbatim>\<open>shm_unlink\<close> of it.
\<close>

definition shm_names :: "(syscall \<times> int) list \<Rightarrow> c_string list" where
  "shm_names h =
     fold (\<lambda>(c, r) ns.
             case c of
               Shm_open n fl m \<Rightarrow> if r = - 1 then ns else n # ns
             | Shm_unlink n \<Rightarrow> if r = 0 then removeAll n ns else ns
             | _ \<Rightarrow> ns) h []"

subsection \<open>Sequences of registry operations\<close>

text \<open>
  A client of the registry makes a sequence of calls. The handles it holds are those
  successful creations returned and no destruction has taken back (\<open>live\<close>, in the order
  they were handed out). Every operation runs as the code runs it, whatever handle it is
  given: \<^verbatim>\<open>unmap_shared_memory\<close> never reads its handle, \<^verbatim>\<open>map_shared_memory\<close> reads the
  entry it points to. The one thing the client must not do is destroy a handle it does
  not hold (a second destruction, which the spec leaves undefined): that is \<open>Misused\<close>,
  and the run stops there.
\<close>

datatype registry_op =
    Create string size_t page_access_t
  | Map shmem_handle_t size_t ptr size_t page_access_t
  | Unmap shmem_handle_t ptr size_t
  | Destroy shmem_handle_t

datatype outcome = Halted fault | Misused | Finished world "nat list"

fun run :: "registry_op list \<Rightarrow> world \<Rightarrow> nat list \<Rightarrow> outcome" where
  "run [] w live = Finished w live"
| "run (Create name sz access # ops) w live =
     (case create_shared_memory name sz access w of
        Inl f \<Rightarrow> Halted f
      | Inr (None, w') \<Rightarrow> run ops w' live
      | Inr (Some i, w') \<Rightarrow> run ops w' (live @ [i]))"
| "run (Map h offset start sz access # ops) w live =
     (case map_shared_memory h offset start sz access w of
        Inl f \<Rightarrow> Halted f
      | Inr (ok, w') \<Rightarrow> run ops w' live)"
| "run (Unmap h start sz # ops) w live =
     (case unmap_shared_memory h start sz w of (ok, w') \<Rightarrow> run ops w' live)"
| "run (Destroy h # ops) w live =
     (case h of
        None \<Rightarrow> Misused
      | Some i \<Rightarrow>
          if i \<in> set live
          then (case destroy_shared_memory h w of
                  Inl f \<Rightarrow> Halted f
                | Inr (ok, w') \<Rightarrow> run ops w' (remove1 i live))
          else Misused)"


text \<open>
  The partition of the pool: once the pool is initialized, every entry of \<^verbatim>\<open>s_shmem\<close>
  is exactly once on the free list or exactly once among the live handles, and never
  both. Before, the free list is empty and nothing has been handed out.
\<close>

definition pool_partition :: "world \<Rightarrow> nat list \<Rightarrow> bool" where
  "pool_partition w live =
     (if s_initialized w
      then distinct (s_free_shmem w @ live) \<and> set (s_free_shmem w @ live) = {..<MAX_SHMEM}
      else s_free_shmem w = [] \<and> live = [])"

subsection \<open>An operating system for the examples\<close>

text \<open>
  The theorems hold for every OS. Their examples run on this one: an exclusive creation
  fails on a name in use, an unlink fails on a name not in use, a descriptor is numbered
  by the length of the log, a mapping is made where it is asked for, and every other
  request is granted.
\<close>

definition example_os :: "(syscall \<times> int) list \<Rightarrow> syscall \<Rightarrow> int" where
  "example_os h c =
     (case c of
        Getpagesize \<Rightarrow> 4096
      | Mmap p sz prot fl fd off \<Rightarrow> p
      | Shm_unlink n \<Rightarrow> if n \<in> set (shm_names h) then 0 else - 1
      | Shm_open n fl m \<Rightarrow>
          if n \<in> set (shm_names h)
          then (if O_CREAT \<in> fl \<and> O_EXCL \<in> fl then - 1 else 3 + int (length h))
          else (if O_CREAT \<in> fl then 3 + int (length h) else - 1)
      | _ \<Rightarrow> 0)"



section \<open>Properties\<close>

subsection \<open>What one OS call changes\<close>

lemma sys_fields [simp]:
  "os_reply (snd (sys c w)) = os_reply w"
  "os_log (snd (sys c w)) = os_log w @ [(c, fst (sys c w))]"
  "s_initialized (snd (sys c w)) = s_initialized w"
  "s_shmem (snd (sys c w)) = s_shmem w"
  "s_free_shmem (snd (sys c w)) = s_free_shmem w"
  "fst (sys c w) = os_reply w (os_log w) c"
  by (simp_all add: sys_def Let_def)

lemma fold_list_add: "fold (\<lambda>i l. list_add l i) xs l = l @ xs"
  by (induction xs arbitrary: l) (simp_all add: list_add_def)

lemma init_free:
  "s_free_shmem (init_shared_memory_entries w) =
     (if s_initialized w then s_free_shmem w else s_free_shmem w @ [0..<MAX_SHMEM])"
  by (simp add: init_shared_memory_entries_def fold_list_add)

lemma init_fields [simp]:
  "os_reply (init_shared_memory_entries w) = os_reply w"
  "os_log (init_shared_memory_entries w) = os_log w"
  "s_shmem (init_shared_memory_entries w) = s_shmem w"
  "s_initialized (init_shared_memory_entries w)"
  by (simp_all add: init_shared_memory_entries_def)

lemma init_when_initialized [simp]:
  "s_initialized w \<Longrightarrow> init_shared_memory_entries w = w"
  by (simp add: init_shared_memory_entries_def)

subsection \<open>What each registry operation does\<close>

lemma create_outcomes:
  assumes "create_shared_memory name sz access w = Inr (h, w')"
  defines "w0 \<equiv> init_shared_memory_entries w"
  defines "ul \<equiv> Shm_unlink (C_str name)"
  defines "opn \<equiv> Shm_open (C_str name) (access_to_open_flags access \<union> {O_CREAT} \<union> {O_EXCL})
                  (access_to_mode_flags access)"
  shows "\<exists>i free u fd r u2.
     s_free_shmem w0 = i # free \<and>
     u = os_reply w (os_log w) ul \<and>
     fd = os_reply w (os_log w @ [(ul, u)]) opn \<and>
     r = os_reply w (os_log w @ [(ul, u), (opn, fd)]) (Ftruncate fd sz) \<and>
     u2 = os_reply w (os_log w @ [(ul, u), (opn, fd), (Ftruncate fd sz, r)]) ul \<and>
     (if fd = - 1 then h = None \<and> w' = w0\<lparr> os_log := os_log w @ [(ul, u), (opn, fd)] \<rparr>
      else if r = - 1
      then h = None \<and>
           w' = w0\<lparr> os_log := os_log w @ [(ul, u), (opn, fd), (Ftruncate fd sz, r), (ul, u2)] \<rparr>
      else h = Some i \<and>
           w' = w0\<lparr> os_log := os_log w @ [(ul, u), (opn, fd), (Ftruncate fd sz, r)],
                     s_shmem := (s_shmem w)
                       (i := \<lparr> filename = strncpy name (length (filename (s_shmem w i))), handle = fd \<rparr>),
                     s_free_shmem := free \<rparr>)"
  using assms(1) unfolding create_shared_memory_def w0_def ul_def opn_def
  by (auto simp add: Let_def sys_def CHECK_NOTNULL_def list_first_entry_def list_remove_def
      split: list.splits prod.splits if_splits)

lemma create_log_grows:
  assumes "create_shared_memory name sz access w = Inr (h, w')"
  shows "os_log w' = os_log w @ calls_since w w'"
  using create_outcomes [OF assms]
  by (auto simp add: calls_since_def split: if_splits)

lemma create_aborts:
  "create_shared_memory name sz access w = Inl f \<longleftrightarrow>
     f = Assertion_failed \<and> s_free_shmem (init_shared_memory_entries w) = []"
  unfolding create_shared_memory_def
  by (auto simp add: Let_def sys_def CHECK_NOTNULL_def list_first_entry_def
      split: list.splits prod.splits if_splits)

lemma destroy_outcome:
  fixes w :: world and i :: nat
  assumes "i < MAX_SHMEM"
  defines "cl \<equiv> Close (handle (s_shmem w i))"
  defines "ul \<equiv> Shm_unlink (read_filename (s_shmem w i))"
  defines "r1 \<equiv> os_reply w (os_log w) cl"
  defines "r2 \<equiv> os_reply w (os_log w @ [(cl, r1)]) ul"
  shows "destroy_shared_memory (Some i) w =
           Inr (r1 = 0 \<and> r2 = 0,
                (init_shared_memory_entries w)
                  \<lparr> os_log := os_log w @ [(cl, r1), (ul, r2)],
                    s_free_shmem := s_free_shmem (init_shared_memory_entries w) @ [i] \<rparr>)"
  using assms(1) unfolding destroy_shared_memory_def cl_def ul_def r1_def r2_def
  by (simp add: Let_def sys_def entry_of_def list_add_def split: prod.splits)




lemma partition_log [simp]:
  "pool_partition (w\<lparr> os_log := l \<rparr>) live = pool_partition w live"
  by (simp add: pool_partition_def)




lemma upt_MAX_SHMEM: "[0..<MAX_SHMEM] = 0 # 1 # 2 # [3..<MAX_SHMEM]"
  by (simp add: MAX_SHMEM_def upt_conv_Cons)

lemma MAX_SHMEM_gt [simp]: "0 < MAX_SHMEM" "Suc 0 < MAX_SHMEM" "2 < MAX_SHMEM"
  by (simp_all add: MAX_SHMEM_def)

lemma init_unfold:
  "init_shared_memory_entries w =
     (if s_initialized w then w
      else w\<lparr> s_initialized := True, s_free_shmem := s_free_shmem w @ [0..<MAX_SHMEM] \<rparr>)"
  by (simp add: init_shared_memory_entries_def fold_list_add)

lemma create_unfold:
  "create_shared_memory name sz access w =
     (case s_free_shmem (init_shared_memory_entries w) of
        [] \<Rightarrow> Inl Assertion_failed
      | i # free \<Rightarrow>
          (let w0 = init_shared_memory_entries w;
               ul = Shm_unlink (C_str name);
               opn = Shm_open (C_str name) (access_to_open_flags access \<union> {O_CREAT} \<union> {O_EXCL})
                       (access_to_mode_flags access);
               u = os_reply w (os_log w) ul;
               fd = os_reply w (os_log w @ [(ul, u)]) opn;
               r = os_reply w (os_log w @ [(ul, u), (opn, fd)]) (Ftruncate fd sz);
               u2 = os_reply w (os_log w @ [(ul, u), (opn, fd), (Ftruncate fd sz, r)]) ul
           in if fd = - 1 then Inr (None, w0\<lparr> os_log := os_log w @ [(ul, u), (opn, fd)] \<rparr>)
              else if r = - 1
              then Inr (None,
                     w0\<lparr> os_log := os_log w @ [(ul, u), (opn, fd), (Ftruncate fd sz, r), (ul, u2)] \<rparr>)
              else Inr (Some i,
                     w0\<lparr> os_log := os_log w @ [(ul, u), (opn, fd), (Ftruncate fd sz, r)],
                         s_shmem := (s_shmem w)
                           (i := \<lparr> filename = strncpy name (length (filename (s_shmem w i))),
                                   handle = fd \<rparr>),
                         s_free_shmem := free \<rparr>)))"
  unfolding create_shared_memory_def
  by (simp add: Let_def sys_def CHECK_NOTNULL_def list_first_entry_def list_remove_def
      split: list.splits prod.splits)

lemmas eval_defs = create_unfold destroy_outcome init_unfold
  upt_MAX_SHMEM Let_def initial_world_def

lemma open_fds_append:
  "open_fds (l @ [(c, r)]) =
     (case c of
        Shm_open n fl m \<Rightarrow> if r = - 1 then open_fds l else open_fds l @ [r]
      | Close fd \<Rightarrow> if r = 0 then remove1 fd (open_fds l) else open_fds l
      | _ \<Rightarrow> open_fds l)"
  by (simp add: open_fds_def split: syscall.splits)

lemma creates_until_exhausted:
  assumes "\<forall>h c. os_reply w h c = 0"
    and "s_free_shmem (init_shared_memory_entries w) = fr"
  shows "\<exists>w'. run (replicate (length fr) (Create name sz access)) w live = Finished w' (live @ fr) \<and>
              s_initialized w' \<and> s_free_shmem w' = []"
  using assms
proof (induction fr arbitrary: w live)
  case Nil
  then have "s_initialized w" by (auto simp add: init_free split: if_splits simp: MAX_SHMEM_def)
  with Nil show ?case by simp
next
  case (Cons i fr)
  from Cons.prems obtain w1 where
    c: "create_shared_memory name sz access w = Inr (Some i, w1)" and
    w1: "s_initialized w1" "s_free_shmem w1 = fr" "os_reply w1 = os_reply w"
    by (simp add: create_unfold Let_def)
  from w1 Cons.prems(1) have "\<forall>h c. os_reply w1 h c = 0" "s_free_shmem (init_shared_memory_entries w1) = fr"
    by simp_all
  from Cons.IH [OF this, of "live @ [i]"] c show ?case by simp
qed

subsection \<open>Creation\<close>

text \<open>
  C2. A call of \<^verbatim>\<open>create_shared_memory\<close> made when the pool is exhausted (the pool has
  been initialized and no entry is on the free list) halts on the failed assertion: the
  outcome is the fault, not a returned handle, null or other. The example exhausts the
  pool by \<^verbatim>\<open>MAX_SHMEM\<close> successful creations from the start of the process; the next
  creation halts.
\<close>

theorem create_halts_on_exhausted_pool:
  "s_initialized w \<Longrightarrow> s_free_shmem w = [] \<Longrightarrow>
     create_shared_memory name sz access w = Inl Assertion_failed"
  by (simp add: create_aborts)

theorem create_halts_on_exhausted_pool_witness:
  "\<exists>w live.
     run (replicate MAX_SHMEM (Create ''segment'' 4096 ACC_READWRITE)) (initial_world (\<lambda>h c. 0) 16) [] =
       Finished w live \<and>
     length live = MAX_SHMEM \<and> s_initialized w \<and> s_free_shmem w = [] \<and>
     create_shared_memory ''one more'' 4096 ACC_READWRITE w = Inl Assertion_failed"
proof -
  have "\<forall>h c. os_reply (initial_world (\<lambda>h c. 0) 16) h c = 0"
    and "s_free_shmem (init_shared_memory_entries (initial_world (\<lambda>h c. 0) 16)) = [0..<MAX_SHMEM]"
    by (simp_all add: initial_world_def init_free)
  from creates_until_exhausted [OF this, of "''segment''" 4096 ACC_READWRITE "[]"]
  obtain w where
    w: "run (replicate MAX_SHMEM (Create ''segment'' 4096 ACC_READWRITE))
          (initial_world (\<lambda>h c. 0) 16) [] = Finished w [0..<MAX_SHMEM]"
       "s_initialized w" "s_free_shmem w = []"
    by auto
  from create_halts_on_exhausted_pool [OF w(2,3), of "''one more''" 4096 ACC_READWRITE] w
  show ?thesis by simp
qed

text \<open>
  C3. A call of \<^verbatim>\<open>create_shared_memory\<close> that returns ends in one of three ways, read
  off the calls it made. The exclusive \<^verbatim>\<open>shm_open\<close> failed: the handle is null. The
  \<^verbatim>\<open>ftruncate\<close> failed: one more \<^verbatim>\<open>shm_unlink\<close> of the name follows and the handle is
  null. In both, the free list is the one the call started with (after the lazy
  initialization, which changes nothing once the pool is initialized) and no entry was
  written. Otherwise the handle is the first entry of the free list, and the free list
  has lost exactly that entry.
\<close>

theorem create_failure_keeps_free_list:
  assumes "create_shared_memory name sz access w = Inr (h, w')"
  shows "(let w0 = init_shared_memory_entries w;
              ul = Shm_unlink (C_str name);
              opn = Shm_open (C_str name) (access_to_open_flags access \<union> {O_CREAT, O_EXCL})
                      (access_to_mode_flags access)
          in os_log w' = os_log w @ calls_since w w' \<and>
             ((\<exists>u. calls_since w w' = [(ul, u), (opn, - 1)] \<and> h = None \<and>
                   s_free_shmem w' = s_free_shmem w0 \<and> s_shmem w' = s_shmem w) \<or>
              (\<exists>u fd u2. fd \<noteq> - 1 \<and>
                   calls_since w w' = [(ul, u), (opn, fd), (Ftruncate fd sz, - 1), (ul, u2)] \<and>
                   h = None \<and> s_free_shmem w' = s_free_shmem w0 \<and> s_shmem w' = s_shmem w) \<or>
              (\<exists>u fd r i. fd \<noteq> - 1 \<and> r \<noteq> - 1 \<and>
                   calls_since w w' = [(ul, u), (opn, fd), (Ftruncate fd sz, r)] \<and>
                   h = Some i \<and> s_free_shmem w0 = i # s_free_shmem w')))"
  using create_outcomes [OF assms]
  by (auto simp add: Let_def calls_since_def Un_commute insert_commute split: if_splits)

theorem create_failure_keeps_free_list_witness:
  "\<exists>w1 w2.
     create_shared_memory ''x'' 4096 ACC_READWRITE (initial_world (\<lambda>h c. - 1) 16) = Inr (None, w1) \<and>
     os_log w1 =
       [(Shm_unlink (C_str ''x''), - 1),
        (Shm_open (C_str ''x'') {O_RDWR, O_CREAT, O_EXCL} {S_IREAD, S_IWRITE}, - 1)] \<and>
     s_free_shmem w1 = s_free_shmem (init_shared_memory_entries (initial_world (\<lambda>h c. - 1) 16)) \<and>
     create_shared_memory ''x'' 4096 ACC_READWRITE
       (initial_world (\<lambda>h c. case c of Ftruncate fd sz \<Rightarrow> - 1 | _ \<Rightarrow> example_os h c) 16) =
       Inr (None, w2) \<and>
     os_log w2 =
       [(Shm_unlink (C_str ''x''), - 1),
        (Shm_open (C_str ''x'') {O_RDWR, O_CREAT, O_EXCL} {S_IREAD, S_IWRITE}, 4),
        (Ftruncate 4 4096, - 1),
        (Shm_unlink (C_str ''x''), 0)] \<and>
     s_free_shmem w2 =
       s_free_shmem (init_shared_memory_entries
         (initial_world (\<lambda>h c. case c of Ftruncate fd sz \<Rightarrow> - 1 | _ \<Rightarrow> example_os h c) 16))"
proof -
  have "\<exists>w1. create_shared_memory ''x'' 4096 ACC_READWRITE (initial_world (\<lambda>h c. - 1) 16) = Inr (None, w1) \<and>
     os_log w1 =
       [(Shm_unlink (C_str ''x''), - 1),
        (Shm_open (C_str ''x'') {O_RDWR, O_CREAT, O_EXCL} {S_IREAD, S_IWRITE}, - 1)]"
    by (simp add: eval_defs insert_commute)
  then obtain w1 where
    c1: "create_shared_memory ''x'' 4096 ACC_READWRITE (initial_world (\<lambda>h c. - 1) 16) = Inr (None, w1)"
    and l1: "os_log w1 =
       [(Shm_unlink (C_str ''x''), - 1),
        (Shm_open (C_str ''x'') {O_RDWR, O_CREAT, O_EXCL} {S_IREAD, S_IWRITE}, - 1)]"
    by blast
  have "\<exists>w2. create_shared_memory ''x'' 4096 ACC_READWRITE
           (initial_world (\<lambda>h c. case c of Ftruncate fd sz \<Rightarrow> - 1 | _ \<Rightarrow> example_os h c) 16) =
           Inr (None, w2) \<and>
     os_log w2 =
       [(Shm_unlink (C_str ''x''), - 1),
        (Shm_open (C_str ''x'') {O_RDWR, O_CREAT, O_EXCL} {S_IREAD, S_IWRITE}, 4),
        (Ftruncate 4 4096, - 1),
        (Shm_unlink (C_str ''x''), 0)]"
    by (simp add: eval_defs example_os_def shm_names_def insert_commute)
  then obtain w2 where
    c2: "create_shared_memory ''x'' 4096 ACC_READWRITE
           (initial_world (\<lambda>h c. case c of Ftruncate fd sz \<Rightarrow> - 1 | _ \<Rightarrow> example_os h c) 16) =
           Inr (None, w2)"
    and l2: "os_log w2 =
       [(Shm_unlink (C_str ''x''), - 1),
        (Shm_open (C_str ''x'') {O_RDWR, O_CREAT, O_EXCL} {S_IREAD, S_IWRITE}, 4),
        (Ftruncate 4 4096, - 1),
        (Shm_unlink (C_str ''x''), 0)]"
    by blast
  from create_failure_keeps_free_list [OF c1]
  have f1: "s_free_shmem w1 = s_free_shmem (init_shared_memory_entries (initial_world (\<lambda>h c. - 1) 16))"
    unfolding Let_def by blast
  from create_failure_keeps_free_list [OF c2]
  have f2: "s_free_shmem w2 =
       s_free_shmem (init_shared_memory_entries
         (initial_world (\<lambda>h c. case c of Ftruncate fd sz \<Rightarrow> - 1 | _ \<Rightarrow> example_os h c) 16))"
    unfolding Let_def by blast
  show ?thesis
    by (rule exI [of _ w1], rule exI [of _ w2]) (intro conjI c1 l1 f1 c2 l2 f2)
qed

lemma shm_names_append:
  "shm_names (l @ [(c, r)]) =
     (case c of
        Shm_open n fl m \<Rightarrow> if r = - 1 then shm_names l else n # shm_names l
      | Shm_unlink n \<Rightarrow> if r = 0 then removeAll n (shm_names l) else shm_names l
      | _ \<Rightarrow> shm_names l)"
  by (cases c) (simp_all add: shm_names_def)

lemma create_on_posix_namespace:
  assumes unlink: "\<forall>l n. os_reply w l (Shm_unlink n) = 0 \<longleftrightarrow> n \<in> set (shm_names l)"
    and excl: "\<forall>l n fl m. n \<notin> set (shm_names l) \<and> O_CREAT \<in> fl \<longrightarrow>
                 os_reply w l (Shm_open n fl m) \<noteq> - 1"
    and trunc: "\<forall>l fd sz. os_reply w l (Ftruncate fd sz) \<noteq> - 1"
    and free: "s_free_shmem (init_shared_memory_entries w) \<noteq> []"
  shows "\<exists>i w2 u fl mode fd r.
           create_shared_memory name sz access w = Inr (Some i, w2) \<and>
           os_log w2 = os_log w @
             [(Shm_unlink (C_str name), u), (Shm_open (C_str name) fl mode, fd),
              (Ftruncate fd sz, r)] \<and>
           (u = 0 \<longleftrightarrow> C_str name \<in> set (shm_names (os_log w))) \<and>
           fd \<noteq> - 1 \<and> handle (s_shmem w2 i) = fd \<and>
           shm_names (os_log w2) = C_str name # removeAll (C_str name) (shm_names (os_log w))"
proof -
  let ?ul = "Shm_unlink (C_str name)"
  let ?fl = "access_to_open_flags access \<union> {O_CREAT} \<union> {O_EXCL}"
  let ?opn = "Shm_open (C_str name) ?fl (access_to_mode_flags access)"
  from free have "\<not> isl (create_shared_memory name sz access w)"
    by (cases "create_shared_memory name sz access w") (simp_all add: create_aborts)
  then obtain h w' where c: "create_shared_memory name sz access w = Inr (h, w')"
    by (cases "create_shared_memory name sz access w") auto
  from create_outcomes [OF c] obtain i rest u fd r u2 where
    u: "u = os_reply w (os_log w) ?ul" and
    fd: "fd = os_reply w (os_log w @ [(?ul, u)]) ?opn" and
    r: "r = os_reply w (os_log w @ [(?ul, u), (?opn, fd)]) (Ftruncate fd sz)" and
    out: "if fd = - 1
          then h = None \<and>
               w' = (init_shared_memory_entries w)\<lparr> os_log := os_log w @ [(?ul, u), (?opn, fd)] \<rparr>
          else if r = - 1
          then h = None \<and>
               w' = (init_shared_memory_entries w)
                 \<lparr> os_log := os_log w @ [(?ul, u), (?opn, fd), (Ftruncate fd sz, r), (?ul, u2)] \<rparr>
          else h = Some i \<and>
               w' = (init_shared_memory_entries w)
                 \<lparr> os_log := os_log w @ [(?ul, u), (?opn, fd), (Ftruncate fd sz, r)],
                   s_shmem := (s_shmem w)
                     (i := \<lparr> filename = strncpy name (length (filename (s_shmem w i))),
                             handle = fd \<rparr>),
                   s_free_shmem := rest \<rparr>"
    by blast
  from unlink u have u0: "u = 0 \<longleftrightarrow> C_str name \<in> set (shm_names (os_log w))"
    by simp
  then have gone: "shm_names (os_log w @ [(?ul, u)]) = removeAll (C_str name) (shm_names (os_log w))"
    by (auto simp add: shm_names_append)
  then have "C_str name \<notin> set (shm_names (os_log w @ [(?ul, u)]))"
    by simp
  moreover have "O_CREAT \<in> ?fl" by simp
  ultimately have fdne: "fd \<noteq> - 1"
    unfolding fd
    by (intro excl [THEN spec, THEN spec, THEN spec, THEN spec, THEN mp] conjI)
  have rne: "r \<noteq> - 1"
    unfolding r by (rule trunc [THEN spec, THEN spec, THEN spec])
  from out fdne rne have h: "h = Some i" and
    w': "w' = (init_shared_memory_entries w)
                 \<lparr> os_log := os_log w @ [(?ul, u), (?opn, fd), (Ftruncate fd sz, r)],
                   s_shmem := (s_shmem w)
                     (i := \<lparr> filename = strncpy name (length (filename (s_shmem w i))),
                             handle = fd \<rparr>),
                   s_free_shmem := rest \<rparr>"
    by simp_all
  have l: "os_log w' = os_log w @ [(?ul, u), (?opn, fd), (Ftruncate fd sz, r)]"
    by (simp add: w')
  have hd: "handle (s_shmem w' i) = fd"
    by (simp add: w')
  have "os_log w' = ((os_log w @ [(?ul, u)]) @ [(?opn, fd)]) @ [(Ftruncate fd sz, r)]"
    by (simp add: l)
  then have n: "shm_names (os_log w') =
      C_str name # removeAll (C_str name) (shm_names (os_log w))"
    using fdne gone by (simp only: shm_names_append) simp
  from c h have c': "create_shared_memory name sz access w = Inr (Some i, w')" by simp
  show ?thesis
    by (rule exI [of _ i], rule exI [of _ w'], rule exI [of _ u], rule exI [of _ ?fl],
        rule exI [of _ "access_to_mode_flags access"], rule exI [of _ fd], rule exI [of _ r])
       (intro conjI c' l u0 fdne hd n)
qed

text \<open>
  C4. In every world, whatever the log says of the name, a call of
  \<^verbatim>\<open>create_shared_memory\<close> that returns has first called \<^verbatim>\<open>shm_unlink\<close> on the name and
  then \<^verbatim>\<open>shm_open\<close> on the same name with \<^verbatim>\<open>O_CREAT\<close> and \<^verbatim>\<open>O_EXCL\<close>. The result of the
  unlink is not looked at: the call succeeds exactly when the open and the sizing
  succeed. Hence on an OS that keeps the namespace as POSIX does (an unlink succeeds
  exactly on a name in use, an exclusive creation of a name not in use is granted) and
  grants the sizing, a creation with a free entry to draw succeeds whether or not the
  name is in use: a name in use is unlinked (result 0), and afterwards the name stands
  for the object just created and no longer for the earlier one. In the example the name
  is in use by a live segment when the second creation starts, and the first entry still
  holds its descriptor afterwards.
\<close>

theorem create_unlinks_before_exclusive_open:
  "(create_shared_memory name sz access w = Inr (h, w') \<longrightarrow>
      (\<exists>u fl mode fd rest.
         os_log w' = os_log w @
           (Shm_unlink (C_str name), u) # (Shm_open (C_str name) fl mode, fd) # rest \<and>
         O_CREAT \<in> fl \<and> O_EXCL \<in> fl \<and>
         (h \<noteq> None \<longleftrightarrow> fd \<noteq> - 1 \<and> (\<exists>r. r \<noteq> - 1 \<and> rest = [(Ftruncate fd sz, r)])))) \<and>
   ((\<forall>l n. os_reply w l (Shm_unlink n) = 0 \<longleftrightarrow> n \<in> set (shm_names l)) \<and>
    (\<forall>l n fl m. n \<notin> set (shm_names l) \<and> O_CREAT \<in> fl \<longrightarrow>
       os_reply w l (Shm_open n fl m) \<noteq> - 1) \<and>
    (\<forall>l fd sz. os_reply w l (Ftruncate fd sz) \<noteq> - 1) \<and>
    s_free_shmem (init_shared_memory_entries w) \<noteq> [] \<longrightarrow>
      (\<exists>i w2 u fl mode fd r.
         create_shared_memory name sz access w = Inr (Some i, w2) \<and>
         os_log w2 = os_log w @
           [(Shm_unlink (C_str name), u), (Shm_open (C_str name) fl mode, fd),
            (Ftruncate fd sz, r)] \<and>
         (u = 0 \<longleftrightarrow> C_str name \<in> set (shm_names (os_log w))) \<and>
         fd \<noteq> - 1 \<and> handle (s_shmem w2 i) = fd \<and>
         shm_names (os_log w2) = C_str name # removeAll (C_str name) (shm_names (os_log w))))"
proof (rule conjI [OF impI impI])
  assume "create_shared_memory name sz access w = Inr (h, w')"
  from create_outcomes [OF this]
  show "\<exists>u fl mode fd rest.
         os_log w' = os_log w @
           (Shm_unlink (C_str name), u) # (Shm_open (C_str name) fl mode, fd) # rest \<and>
         O_CREAT \<in> fl \<and> O_EXCL \<in> fl \<and>
         (h \<noteq> None \<longleftrightarrow> fd \<noteq> - 1 \<and> (\<exists>r. r \<noteq> - 1 \<and> rest = [(Ftruncate fd sz, r)]))"
    by (auto split: if_splits)
next
  assume a: "(\<forall>l n. os_reply w l (Shm_unlink n) = 0 \<longleftrightarrow> n \<in> set (shm_names l)) \<and>
    (\<forall>l n fl m. n \<notin> set (shm_names l) \<and> O_CREAT \<in> fl \<longrightarrow>
       os_reply w l (Shm_open n fl m) \<noteq> - 1) \<and>
    (\<forall>l fd sz. os_reply w l (Ftruncate fd sz) \<noteq> - 1) \<and>
    s_free_shmem (init_shared_memory_entries w) \<noteq> []"
  show "\<exists>i w2 u fl mode fd r.
         create_shared_memory name sz access w = Inr (Some i, w2) \<and>
         os_log w2 = os_log w @
           [(Shm_unlink (C_str name), u), (Shm_open (C_str name) fl mode, fd),
            (Ftruncate fd sz, r)] \<and>
         (u = 0 \<longleftrightarrow> C_str name \<in> set (shm_names (os_log w))) \<and>
         fd \<noteq> - 1 \<and> handle (s_shmem w2 i) = fd \<and>
         shm_names (os_log w2) = C_str name # removeAll (C_str name) (shm_names (os_log w))"
    by (rule create_on_posix_namespace
          [OF a [THEN conjunct1] a [THEN conjunct2, THEN conjunct1]
              a [THEN conjunct2, THEN conjunct2, THEN conjunct1]
              a [THEN conjunct2, THEN conjunct2, THEN conjunct2]])
qed

theorem create_unlinks_before_exclusive_open_witness:
  "\<exists>w1 w2.
     create_shared_memory ''x'' 4096 ACC_READWRITE (initial_world example_os 16) = Inr (Some 0, w1) \<and>
     shm_names (os_log w1) = [C_str ''x''] \<and>
     os_reply w1 = example_os \<and>
     (\<forall>l n. example_os l (Shm_unlink n) = 0 \<longleftrightarrow> n \<in> set (shm_names l)) \<and>
     (\<forall>l n fl m. n \<in> set (shm_names l) \<or> O_CREAT \<notin> fl \<or> example_os l (Shm_open n fl m) \<noteq> - 1) \<and>
     (\<forall>l fd sz. example_os l (Ftruncate fd sz) \<noteq> - 1) \<and>
     s_free_shmem (init_shared_memory_entries w1) \<noteq> [] \<and>
     create_shared_memory ''x'' 4096 ACC_READWRITE w1 = Inr (Some 1, w2) \<and>
     os_log w2 = os_log w1 @
       [(Shm_unlink (C_str ''x''), 0),
        (Shm_open (C_str ''x'') {O_RDWR, O_CREAT, O_EXCL} {S_IREAD, S_IWRITE}, 7),
        (Ftruncate 7 4096, 0)] \<and>
     handle (s_shmem w2 0) = 4 \<and> handle (s_shmem w2 1) = 7 \<and>
     (\<exists>u fl mode fd rest.
        os_log w2 = os_log w1 @
          (Shm_unlink (C_str ''x''), u) # (Shm_open (C_str ''x'') fl mode, fd) # rest \<and>
        O_CREAT \<in> fl \<and> O_EXCL \<in> fl \<and>
        (Some (1 :: nat) \<noteq> None \<longleftrightarrow> fd \<noteq> - 1 \<and> (\<exists>r. r \<noteq> - 1 \<and> rest = [(Ftruncate fd 4096, r)]))) \<and>
     (\<exists>i w3 u fl mode fd r.
         create_shared_memory ''x'' 4096 ACC_READWRITE w1 = Inr (Some i, w3) \<and>
         os_log w3 = os_log w1 @
           [(Shm_unlink (C_str ''x''), u), (Shm_open (C_str ''x'') fl mode, fd),
            (Ftruncate fd 4096, r)] \<and>
         (u = 0 \<longleftrightarrow> C_str ''x'' \<in> set (shm_names (os_log w1))) \<and>
         fd \<noteq> - 1 \<and> handle (s_shmem w3 i) = fd \<and>
         shm_names (os_log w3) = C_str ''x'' # removeAll (C_str ''x'') (shm_names (os_log w1)))"
proof -
  have "\<exists>w1. create_shared_memory ''x'' 4096 ACC_READWRITE (initial_world example_os 16) = Inr (Some 0, w1) \<and>
      os_log w1 =
       [(Shm_unlink (C_str ''x''), - 1),
        (Shm_open (C_str ''x'') {O_RDWR, O_CREAT, O_EXCL} {S_IREAD, S_IWRITE}, 4),
        (Ftruncate 4 4096, 0)] \<and>
      s_free_shmem w1 = 1 # 2 # [3..<MAX_SHMEM] \<and>
      s_initialized w1 \<and> os_reply w1 = example_os \<and> handle (s_shmem w1 0) = 4"
    by (simp add: eval_defs example_os_def shm_names_def insert_commute)
  then obtain w1 where
    c1: "create_shared_memory ''x'' 4096 ACC_READWRITE (initial_world example_os 16) = Inr (Some 0, w1)"
    and l1: "os_log w1 =
       [(Shm_unlink (C_str ''x''), - 1),
        (Shm_open (C_str ''x'') {O_RDWR, O_CREAT, O_EXCL} {S_IREAD, S_IWRITE}, 4),
        (Ftruncate 4 4096, 0)]"
    and f1: "s_free_shmem w1 = 1 # 2 # [3..<MAX_SHMEM]"
    and i1: "s_initialized w1" and o1: "os_reply w1 = example_os" and h1: "handle (s_shmem w1 0) = 4"
    by blast
  have "\<exists>w2. create_shared_memory ''x'' 4096 ACC_READWRITE w1 = Inr (Some 1, w2) \<and>
      os_log w2 = os_log w1 @
       [(Shm_unlink (C_str ''x''), 0),
        (Shm_open (C_str ''x'') {O_RDWR, O_CREAT, O_EXCL} {S_IREAD, S_IWRITE}, 7),
        (Ftruncate 7 4096, 0)] \<and>
      handle (s_shmem w2 0) = 4 \<and> handle (s_shmem w2 1) = 7"
    by (simp add: create_unfold Let_def example_os_def shm_names_def insert_commute l1 f1 i1 o1 h1)
  then obtain w2 where
    c2: "create_shared_memory ''x'' 4096 ACC_READWRITE w1 = Inr (Some 1, w2)"
    and l2: "os_log w2 = os_log w1 @
       [(Shm_unlink (C_str ''x''), 0),
        (Shm_open (C_str ''x'') {O_RDWR, O_CREAT, O_EXCL} {S_IREAD, S_IWRITE}, 7),
        (Ftruncate 7 4096, 0)]"
    and h2: "handle (s_shmem w2 0) = 4" "handle (s_shmem w2 1) = 7"
    by blast
  have n1: "shm_names (os_log w1) = [C_str ''x'']"
    by (simp add: l1 shm_names_def)
  have k1: "\<forall>l n. example_os l (Shm_unlink n) = 0 \<longleftrightarrow> n \<in> set (shm_names l)"
    by (simp add: example_os_def)
  have k2: "\<forall>l n fl m. n \<in> set (shm_names l) \<or> O_CREAT \<notin> fl \<or> example_os l (Shm_open n fl m) \<noteq> - 1"
    by (simp add: example_os_def)
  have k3: "\<forall>l fd sz. example_os l (Ftruncate fd sz) \<noteq> - 1"
    by (simp add: example_os_def)
  have k4: "s_free_shmem (init_shared_memory_entries w1) \<noteq> []"
    by (simp add: i1 f1)
  note t = create_unlinks_before_exclusive_open [of "''x''" 4096 ACC_READWRITE w1 "Some 1" w2]
  have t1: "\<exists>u fl mode fd rest.
        os_log w2 = os_log w1 @
          (Shm_unlink (C_str ''x''), u) # (Shm_open (C_str ''x'') fl mode, fd) # rest \<and>
        O_CREAT \<in> fl \<and> O_EXCL \<in> fl \<and>
        (Some (1 :: nat) \<noteq> None \<longleftrightarrow> fd \<noteq> - 1 \<and> (\<exists>r. r \<noteq> - 1 \<and> rest = [(Ftruncate fd 4096, r)]))"
    by (rule t [THEN conjunct1, THEN mp, OF c2])
  from k2 have k2': "\<forall>l n fl m. n \<notin> set (shm_names l) \<and> O_CREAT \<in> fl \<longrightarrow>
       example_os l (Shm_open n fl m) \<noteq> - 1"
    by blast
  have t2: "\<exists>i w3 u fl mode fd r.
         create_shared_memory ''x'' 4096 ACC_READWRITE w1 = Inr (Some i, w3) \<and>
         os_log w3 = os_log w1 @
           [(Shm_unlink (C_str ''x''), u), (Shm_open (C_str ''x'') fl mode, fd),
            (Ftruncate fd 4096, r)] \<and>
         (u = 0 \<longleftrightarrow> C_str ''x'' \<in> set (shm_names (os_log w1))) \<and>
         fd \<noteq> - 1 \<and> handle (s_shmem w3 i) = fd \<and>
         shm_names (os_log w3) = C_str ''x'' # removeAll (C_str ''x'') (shm_names (os_log w1))"
    by (rule t [unfolded o1, THEN conjunct2, THEN mp]) (intro conjI k1 k2' k3 k4)
  show ?thesis
    by (rule exI [of _ w1], rule exI [of _ w2])
       (intro conjI c1 n1 o1 k1 k2 k3 k4 c2 l2 h2 t1 t2)
qed

subsection \<open>Destruction\<close>

text \<open>
  C6. For every handle that points to an entry, in every world and on every OS,
  \<^verbatim>\<open>destroy_shared_memory\<close> returns: it calls \<^verbatim>\<open>close\<close> on the entry's descriptor, then
  \<^verbatim>\<open>shm_unlink\<close> on the name stored in the entry (the entry's \<^verbatim>\<open>filename\<close> read as a
  string), and appends the entry to the free list whatever the two calls returned. Its result is true exactly when both returned 0. In
  the example \<^verbatim>\<open>close\<close> fails: the result is false and the entry is back on the free
  list.
\<close>

theorem destroy_recycles_unconditionally:
  assumes "i < MAX_SHMEM"
  shows "\<exists>r1 r2 w'.
           destroy_shared_memory (Some i) w = Inr (r1 = 0 \<and> r2 = 0, w') \<and>
           os_log w' = os_log w @
             [(Close (handle (s_shmem w i)), r1),
              (Shm_unlink (read_filename (s_shmem w i)), r2)] \<and>
           s_free_shmem w' = s_free_shmem (init_shared_memory_entries w) @ [i] \<and>
           s_shmem w' = s_shmem w \<and> s_initialized w'"
  by (simp add: destroy_outcome [OF assms])

theorem destroy_recycles_unconditionally_witness:
  "\<exists>w1 w2.
     create_shared_memory ''x'' 4096 ACC_READWRITE
       (initial_world (\<lambda>h c. case c of Close fd \<Rightarrow> - 1 | _ \<Rightarrow> example_os h c) 16) = Inr (Some 0, w1) \<and>
     (0 :: nat) < MAX_SHMEM \<and>
     destroy_shared_memory (Some 0) w1 = Inr (False, w2) \<and>
     os_log w2 = os_log w1 @ [(Close 4, - 1), (Shm_unlink (C_str ''x''), 0)] \<and>
     s_free_shmem w1 = 1 # 2 # [3..<MAX_SHMEM] \<and>
     s_free_shmem w2 = (1 # 2 # [3..<MAX_SHMEM]) @ [0] \<and>
     (\<exists>r1 r2 w'.
        destroy_shared_memory (Some 0) w1 = Inr (r1 = 0 \<and> r2 = 0, w') \<and>
        os_log w' = os_log w1 @
          [(Close (handle (s_shmem w1 0)), r1),
           (Shm_unlink (read_filename (s_shmem w1 0)), r2)] \<and>
        s_free_shmem w' = s_free_shmem (init_shared_memory_entries w1) @ [0] \<and>
        s_shmem w' = s_shmem w1 \<and> s_initialized w')"
proof -
  have "\<exists>w1. create_shared_memory ''x'' 4096 ACC_READWRITE
       (initial_world (\<lambda>h c. case c of Close fd \<Rightarrow> - 1 | _ \<Rightarrow> example_os h c) 16) = Inr (Some 0, w1) \<and>
      os_log w1 =
       [(Shm_unlink (C_str ''x''), - 1),
        (Shm_open (C_str ''x'') {O_RDWR, O_CREAT, O_EXCL} {S_IREAD, S_IWRITE}, 4),
        (Ftruncate 4 4096, 0)] \<and>
      s_free_shmem w1 = 1 # 2 # [3..<MAX_SHMEM] \<and> s_initialized w1 \<and>
      os_reply w1 = (\<lambda>h c. case c of Close fd \<Rightarrow> - 1 | _ \<Rightarrow> example_os h c) \<and>
      s_shmem w1 0 = \<lparr> filename = strncpy ''x'' 16, handle = 4 \<rparr>"
    by (simp add: eval_defs example_os_def shm_names_def insert_commute)
  then obtain w1 where
    c1: "create_shared_memory ''x'' 4096 ACC_READWRITE
       (initial_world (\<lambda>h c. case c of Close fd \<Rightarrow> - 1 | _ \<Rightarrow> example_os h c) 16) = Inr (Some 0, w1)"
    and l1: "os_log w1 =
       [(Shm_unlink (C_str ''x''), - 1),
        (Shm_open (C_str ''x'') {O_RDWR, O_CREAT, O_EXCL} {S_IREAD, S_IWRITE}, 4),
        (Ftruncate 4 4096, 0)]"
    and f1: "s_free_shmem w1 = 1 # 2 # [3..<MAX_SHMEM]" and i1: "s_initialized w1"
    and o1: "os_reply w1 = (\<lambda>h c. case c of Close fd \<Rightarrow> - 1 | _ \<Rightarrow> example_os h c)"
    and e1: "s_shmem w1 0 = \<lparr> filename = strncpy ''x'' 16, handle = 4 \<rparr>"
    by blast
  have m: "(0 :: nat) < MAX_SHMEM" by simp
  have n: "read_filename \<lparr> filename = strncpy ''x'' 16, handle = 4 \<rparr> = C_str ''x''"
    by (simp add: read_filename_def strncpy_def NUL_def)
  have "\<exists>w2. destroy_shared_memory (Some 0) w1 = Inr (False, w2) \<and>
      os_log w2 = os_log w1 @ [(Close 4, - 1), (Shm_unlink (C_str ''x''), 0)] \<and>
      s_free_shmem w2 = (1 # 2 # [3..<MAX_SHMEM]) @ [0]"
    by (simp add: destroy_outcome [OF m] e1 n i1 o1 l1 f1 example_os_def shm_names_def)
  then obtain w2 where
    d: "destroy_shared_memory (Some 0) w1 = Inr (False, w2)"
    and l2: "os_log w2 = os_log w1 @ [(Close 4, - 1), (Shm_unlink (C_str ''x''), 0)]"
    and f2: "s_free_shmem w2 = (1 # 2 # [3..<MAX_SHMEM]) @ [0]"
    by blast
  show ?thesis
    by (rule exI [of _ w1], rule exI [of _ w2])
       (intro conjI c1 m d l2 f1 f2 destroy_recycles_unconditionally [OF m])
qed

subsection \<open>The descriptor of a creation that fails at sizing\<close>

text \<open>
  C9. When a call of \<^verbatim>\<open>create_shared_memory\<close> opened a descriptor and the \<^verbatim>\<open>ftruncate\<close>
  of that descriptor failed, the call made exactly four calls (unlink, open, truncate,
  unlink) and none of them is a \<^verbatim>\<open>close\<close> of the descriptor. It returns the null handle
  and writes the descriptor to no entry, so the descriptors the process holds have grown
  by this one and nothing refers to it.
\<close>

theorem create_leaks_descriptor_when_sizing_fails:
  assumes "create_shared_memory name sz access w = Inr (h, w')"
    and "(Shm_open (C_str name) fl mode, fd) \<in> set (calls_since w w')"
    and "fd \<noteq> - 1"
    and "(Ftruncate fd sz, - 1) \<in> set (calls_since w w')"
  shows "h = None \<and>
         (\<exists>u u2. calls_since w w' =
            [(Shm_unlink (C_str name), u), (Shm_open (C_str name) fl mode, fd),
             (Ftruncate fd sz, - 1), (Shm_unlink (C_str name), u2)]) \<and>
         (\<forall>r. (Close fd, r) \<notin> set (calls_since w w')) \<and>
         open_fds (os_log w') = open_fds (os_log w) @ [fd] \<and>
         s_shmem w' = s_shmem w \<and>
         s_free_shmem w' = s_free_shmem (init_shared_memory_entries w)"
proof -
  from create_log_grows [OF assms(1)]
  have log: "os_log w' = os_log w @ calls_since w w'" .
  from create_outcomes [OF assms(1)] assms(2-4)
  have *: "h = None \<and>
         (\<exists>u u2. calls_since w w' =
            [(Shm_unlink (C_str name), u), (Shm_open (C_str name) fl mode, fd),
             (Ftruncate fd sz, - 1), (Shm_unlink (C_str name), u2)]) \<and>
         s_shmem w' = s_shmem w \<and>
         s_free_shmem w' = s_free_shmem (init_shared_memory_entries w)"
    by (auto simp add: calls_since_def split: if_splits)
  then obtain u u2 where c: "calls_since w w' =
            [(Shm_unlink (C_str name), u), (Shm_open (C_str name) fl mode, fd),
             (Ftruncate fd sz, - 1), (Shm_unlink (C_str name), u2)]"
    by blast
  have "open_fds (os_log w') = open_fds (os_log w) @ [fd]"
    using assms(3) unfolding log c open_fds_def by simp
  moreover have "\<forall>r. (Close fd, r) \<notin> set (calls_since w w')"
    unfolding c by simp
  ultimately show ?thesis using * by blast
qed

theorem create_leaks_descriptor_when_sizing_fails_witness:
  "\<exists>w'.
     create_shared_memory ''x'' 4096 ACC_READWRITE
       (initial_world (\<lambda>h c. case c of Ftruncate fd sz \<Rightarrow> - 1 | _ \<Rightarrow> example_os h c) 16) =
       Inr (None, w') \<and>
     (Shm_open (C_str ''x'') {O_RDWR, O_CREAT, O_EXCL} {S_IREAD, S_IWRITE}, 4) \<in>
       set (calls_since
              (initial_world (\<lambda>h c. case c of Ftruncate fd sz \<Rightarrow> - 1 | _ \<Rightarrow> example_os h c) 16) w') \<and>
     (4 :: int) \<noteq> - 1 \<and>
     (Ftruncate 4 4096, - 1) \<in>
       set (calls_since
              (initial_world (\<lambda>h c. case c of Ftruncate fd sz \<Rightarrow> - 1 | _ \<Rightarrow> example_os h c) 16) w') \<and>
     (\<forall>r. (Close 4, r) \<notin>
       set (calls_since
              (initial_world (\<lambda>h c. case c of Ftruncate fd sz \<Rightarrow> - 1 | _ \<Rightarrow> example_os h c) 16) w')) \<and>
     open_fds (os_log w') = [4] \<and>
     s_shmem w' =
       s_shmem (initial_world (\<lambda>h c. case c of Ftruncate fd sz \<Rightarrow> - 1 | _ \<Rightarrow> example_os h c) 16)"
proof -
  let ?W = "initial_world (\<lambda>h c. case c of Ftruncate fd sz \<Rightarrow> - 1 | _ \<Rightarrow> example_os h c) 16"
  have "\<exists>w'. create_shared_memory ''x'' 4096 ACC_READWRITE ?W = Inr (None, w') \<and>
     os_log w' =
       [(Shm_unlink (C_str ''x''), - 1),
        (Shm_open (C_str ''x'') {O_RDWR, O_CREAT, O_EXCL} {S_IREAD, S_IWRITE}, 4),
        (Ftruncate 4 4096, - 1),
        (Shm_unlink (C_str ''x''), 0)]"
    by (simp add: eval_defs example_os_def shm_names_def insert_commute)
  then obtain w' where
    c: "create_shared_memory ''x'' 4096 ACC_READWRITE ?W = Inr (None, w')"
    and l: "os_log w' =
       [(Shm_unlink (C_str ''x''), - 1),
        (Shm_open (C_str ''x'') {O_RDWR, O_CREAT, O_EXCL} {S_IREAD, S_IWRITE}, 4),
        (Ftruncate 4 4096, - 1),
        (Shm_unlink (C_str ''x''), 0)]"
    by blast
  have l0: "os_log ?W = []" by (simp add: initial_world_def)
  have a: "(Shm_open (C_str ''x'') {O_RDWR, O_CREAT, O_EXCL} {S_IREAD, S_IWRITE}, 4) \<in>
             set (calls_since ?W w')"
    by (simp add: calls_since_def l l0)
  have b: "(4 :: int) \<noteq> - 1" by simp
  have d: "(Ftruncate 4 4096, - 1) \<in> set (calls_since ?W w')"
    by (simp add: calls_since_def l l0)
  from create_leaks_descriptor_when_sizing_fails [OF c a b d]
  have "(\<forall>r. (Close 4, r) \<notin> set (calls_since ?W w'))"
    and "open_fds (os_log w') = open_fds (os_log ?W) @ [4]"
    and s: "s_shmem w' = s_shmem ?W"
    by blast+
  then have e: "(\<forall>r. (Close 4, r) \<notin> set (calls_since ?W w'))"
    and f: "open_fds (os_log w') = [4]"
    by (simp_all add: l0 open_fds_def)
  show ?thesis
    by (rule exI [of _ w']) (intro conjI c a b d e f s)
qed

subsection \<open>The partition of the pool\<close>






subsection \<open>The stored name\<close>

lemma length_strncpy [simp]: "length (strncpy s n) = n"
  by (simp add: strncpy_def Let_def)












subsection \<open>Page operations\<close>

text \<open>
  C7. \<^verbatim>\<open>unmap_shared_memory\<close> is \<^verbatim>\<open>release_pages\<close>: for every handle, address, size and
  world the two make the same OS call, return the same result and leave the same world;
  the handle plays no part.
\<close>

theorem unmap_shared_memory_is_release_pages:
  "unmap_shared_memory h start sz w = release_pages start sz w"
  by (simp add: unmap_shared_memory_def release_pages_def)

text \<open>
  C1. \<^verbatim>\<open>reserve_pages\<close> asks for an anonymous private mapping at the address, and
  \<^verbatim>\<open>MAP_FIXED\<close> is not among the flags. It returns true exactly when the mapping was made
  and was made at the requested address. When the mapping was made elsewhere, the one
  further call is the \<^verbatim>\<open>munmap\<close> of the stray mapping and the result is false; when
  \<^verbatim>\<open>mmap\<close> failed, no further call is made and the result is false. The globals of the
  registry are not touched.
\<close>

theorem reserve_pages_collision_detection:
  "(let request = Mmap p sz PROT_NONE {MAP_ANON, MAP_NORESERVE, MAP_PRIVATE} (- 1) 0;
        res = os_reply w (os_log w) request;
        (ok, w') = reserve_pages p sz w
    in MAP_FIXED \<notin> {MAP_ANON, MAP_NORESERVE, MAP_PRIVATE} \<and>
       (ok \<longleftrightarrow> res \<noteq> MAP_FAILED \<and> res = p) \<and>
       os_log w' = os_log w @ calls_since w w' \<and>
       calls_since w w' =
         (if res \<noteq> MAP_FAILED \<and> res \<noteq> p
          then [(request, res),
                (Munmap res sz, os_reply w (os_log w @ [(request, res)]) (Munmap res sz))]
          else [(request, res)]) \<and>
       s_initialized w' = s_initialized w \<and> s_shmem w' = s_shmem w \<and>
       s_free_shmem w' = s_free_shmem w \<and> os_reply w' = os_reply w)"
  by (simp add: reserve_pages_def calls_since_def sys_def Let_def Un_commute insert_commute)

lemma word_of_int_pos:
  "0 < n \<Longrightarrow> n < 2 ^ 31 \<Longrightarrow> unat (word_of_int n :: 64 word) = nat n"
  by (simp add: unsigned_of_int take_bit_int_eq_self)

text \<open>
  C8. \<^verbatim>\<open>get_allocation_granularity\<close> is \<^verbatim>\<open>get_page_size\<close>: the same call, the same
  result, the same world. \<^verbatim>\<open>get_page_size\<close> returns what \<^verbatim>\<open>getpagesize\<close> of the OS
  returns, so it is as constant and as positive as that: on an OS whose
  \<^verbatim>\<open>getpagesize\<close> gives the same positive \<^verbatim>\<open>int\<close> \<open>n\<close> whatever was called before, both
  functions return \<open>n\<close>, a positive \<^verbatim>\<open>size_t\<close>, in every world of that OS.
\<close>

theorem page_size_constant:
  "get_allocation_granularity w = get_page_size w \<and>
   ((\<forall>h. os_reply w h Getpagesize = n) \<and> 0 < n \<and> n < 2 ^ 31 \<and> os_reply w' = os_reply w \<longrightarrow>
      fst (get_page_size w') = fst (get_page_size w) \<and>
      fst (get_allocation_granularity w') = fst (get_page_size w) \<and>
      unat (fst (get_page_size w)) = nat n \<and> 0 < fst (get_page_size w))"
proof (rule conjI [OF _ impI])
  show "get_allocation_granularity w = get_page_size w"
    by (simp add: get_allocation_granularity_def)
next
  assume a: "(\<forall>h. os_reply w h Getpagesize = n) \<and> 0 < n \<and> n < 2 ^ 31 \<and> os_reply w' = os_reply w"
  then have w: "fst (get_page_size w) = word_of_int n" and w': "fst (get_page_size w') = word_of_int n"
    by (simp_all add: get_page_size_def sys_def Let_def)
  from a have u: "unat (word_of_int n :: 64 word) = nat n"
    by (simp add: word_of_int_pos)
  with a have "unat (word_of_int n :: 64 word) \<noteq> 0" by simp
  then have "(word_of_int n :: 64 word) \<noteq> 0" by (metis unat_0)
  then have p: "0 < (word_of_int n :: 64 word)" by (simp add: word_greater_zero_iff)
  from w w' u p
  show "fst (get_page_size w') = fst (get_page_size w) \<and>
      fst (get_allocation_granularity w') = fst (get_page_size w) \<and>
      unat (fst (get_page_size w)) = nat n \<and> 0 < fst (get_page_size w)"
    by (simp add: get_allocation_granularity_def)
qed

theorem page_size_constant_witness:
  "(\<forall>h. os_reply (initial_world (\<lambda>h c. 4096) 4096) h Getpagesize = 4096) \<and>
   (0 :: int) < 4096 \<and> (4096 :: int) < 2 ^ 31 \<and>
   os_reply (snd (get_page_size (initial_world (\<lambda>h c. 4096) 4096))) =
     os_reply (initial_world (\<lambda>h c. 4096) 4096) \<and>
   fst (get_page_size (snd (get_page_size (initial_world (\<lambda>h c. 4096) 4096)))) =
     fst (get_page_size (initial_world (\<lambda>h c. 4096) 4096)) \<and>
   unat (fst (get_page_size (initial_world (\<lambda>h c. 4096) 4096))) = 4096"
  using page_size_constant [of "initial_world (\<lambda>h c. 4096) 4096" 4096
      "snd (get_page_size (initial_world (\<lambda>h c. 4096) 4096))"]
  by (simp add: initial_world_def get_page_size_def sys_def)

end
